theory Spec2Isabelle
  imports Main
begin

section \<open>Characters and strings of the map file\<close>

text \<open>
  The parser reads the map file as Python text (\<open>str\<close>): a line is a sequence of code
  points. A \<^typ>\<open>char\<close> stands for a code point below 256, and the character classes
  below are the ones Python's \<open>str.isspace\<close>, \<open>str.isalnum\<close> and the \<open>re\<close> module use
  on that range.
\<close>

definition ord :: "char \<Rightarrow> nat" where
  "ord c = of_char c"

definition is_space :: "char \<Rightarrow> bool" where
  \<comment> \<open>\<open>\s\<close> and the characters removed by \<open>str.strip()\<close>\<close>
  "is_space c = ((9 \<le> ord c \<and> ord c \<le> 13) \<or> (28 \<le> ord c \<and> ord c \<le> 32)
                  \<or> ord c = 133 \<or> ord c = 160)"

definition not_space :: "char \<Rightarrow> bool" where
  \<comment> \<open>\<open>\S\<close>\<close>
  "not_space c = (\<not> is_space c)"

definition is_hex :: "char \<Rightarrow> bool" where
  \<comment> \<open>\<open>[0-9a-fA-F]\<close>\<close>
  "is_hex c = ((48 \<le> ord c \<and> ord c \<le> 57) \<or> (97 \<le> ord c \<and> ord c \<le> 102)
                \<or> (65 \<le> ord c \<and> ord c \<le> 70))"

definition is_sym_start :: "char \<Rightarrow> bool" where
  \<comment> \<open>\<open>[a-zA-Z_]\<close>\<close>
  "is_sym_start c = ((97 \<le> ord c \<and> ord c \<le> 122) \<or> (65 \<le> ord c \<and> ord c \<le> 90)
                      \<or> c = CHR ''_'')"

definition is_sym_char :: "char \<Rightarrow> bool" where
  \<comment> \<open>\<open>[a-zA-Z0-9_$.@*]\<close>\<close>
  "is_sym_char c = ((97 \<le> ord c \<and> ord c \<le> 122) \<or> (65 \<le> ord c \<and> ord c \<le> 90)
                     \<or> (48 \<le> ord c \<and> ord c \<le> 57)
                     \<or> c = CHR ''_'' \<or> c = CHR ''$'' \<or> c = CHR ''.'' \<or> c = CHR ''@''
                     \<or> c = CHR ''*'')"

definition is_word :: "char \<Rightarrow> bool" where
  \<comment> \<open>\<open>\w\<close>: alphanumeric (as \<open>str.isalnum\<close>) or underscore\<close>
  "is_word c = ((48 \<le> ord c \<and> ord c \<le> 57) \<or> (65 \<le> ord c \<and> ord c \<le> 90)
                 \<or> (97 \<le> ord c \<and> ord c \<le> 122) \<or> c = CHR ''_''
                 \<or> ord c = 170 \<or> ord c = 178 \<or> ord c = 179 \<or> ord c = 181
                 \<or> ord c = 185 \<or> ord c = 186 \<or> (188 \<le> ord c \<and> ord c \<le> 190)
                 \<or> (192 \<le> ord c \<and> ord c \<le> 214) \<or> (216 \<le> ord c \<and> ord c \<le> 246)
                 \<or> 248 \<le> ord c)"

definition any_char :: "char \<Rightarrow> bool" where
  \<comment> \<open>\<open>.\<close>: every character but the newline\<close>
  "any_char c = (ord c \<noteq> 10)"

definition lower :: "char \<Rightarrow> char" where
  \<comment> \<open>case folding of \<open>re.IGNORECASE\<close>; a pattern letter is an ASCII letter, and below 256
      only the two ASCII cases of it fold to it\<close>
  "lower c = (if 65 \<le> ord c \<and> ord c \<le> 90 then char_of (ord c + 32) else c)"

definition is_char :: "char \<Rightarrow> char \<Rightarrow> bool" where
  "is_char x c = (c = x)"

definition is_char_nocase :: "char \<Rightarrow> char \<Rightarrow> bool" where
  "is_char_nocase x c = (lower c = lower x)"

definition strip :: "string \<Rightarrow> string" where
  \<comment> \<open>\<open>str.strip()\<close>\<close>
  "strip s = rev (dropWhile is_space (rev (dropWhile is_space s)))"

primrec starts_with :: "string \<Rightarrow> string \<Rightarrow> bool" where
  "starts_with [] s = True"
| "starts_with (x # xs) s = (case s of [] \<Rightarrow> False | c # cs \<Rightarrow> c = x \<and> starts_with xs cs)"

definition endswith :: "string \<Rightarrow> string \<Rightarrow> bool" where
  \<comment> \<open>\<open>s.endswith(ext)\<close>\<close>
  "endswith s ext = starts_with (rev ext) (rev s)"

primrec str_contains :: "string \<Rightarrow> string \<Rightarrow> bool" where
  \<comment> \<open>\<open>sub in s\<close>\<close>
  "str_contains sub [] = (sub = [])"
| "str_contains sub (c # cs) = (starts_with sub (c # cs) \<or> str_contains sub cs)"

definition hex_digit :: "char \<Rightarrow> int" where
  "hex_digit c = (if 48 \<le> ord c \<and> ord c \<le> 57 then int (ord c) - 48
                  else if 97 \<le> ord c \<and> ord c \<le> 102 then int (ord c) - 87
                  else int (ord c) - 55)"

definition int16 :: "string \<Rightarrow> int option" where
  \<comment> \<open>\<open>int(s, 16)\<close> on the strings the parser passes to it, which are groups of
      hexadecimal digits; \<open>None\<close> is the \<open>ValueError\<close>\<close>
  "int16 s = (if s \<noteq> [] \<and> list_all is_hex s
              then Some (foldl (\<lambda>acc c. 16 * acc + hex_digit c) 0 s) else None)"

section \<open>Regular expressions with the matching order of Python's \<open>re\<close>\<close>

text \<open>
  The patterns of the parser repeat single character classes only, so the syntax has a
  greedy and a lazy repetition of a class, concatenation, alternation, groups and the
  anchors. A match position records the character before it (for \<open>^\<close> and \<open>\b\<close>), the
  text ahead and the groups captured so far. \<open>ms r p\<close> lists the positions at which a
  match of \<open>r\<close> begun at \<open>p\<close> can end, in the order in which a backtracking matcher
  tries them; the match Python reports is the first one.
\<close>

datatype regex =
    Chr "char \<Rightarrow> bool"
  | Many "char \<Rightarrow> bool"
  | Few "char \<Rightarrow> bool"
  | Cat regex regex
  | Or regex regex
  | Group nat regex
  | Bol
  | Eol
  | Wordb
  | Empty

record cursor =
  behind :: "char option"
  ahead :: string
  groups :: "(nat \<times> string) list"

primrec greedy :: "(char \<Rightarrow> bool) \<Rightarrow> char option \<Rightarrow> string \<Rightarrow> (char option \<times> string) list" where
  "greedy p b [] = [(b, [])]"
| "greedy p b (c # cs) = (if p c then greedy p (Some c) cs @ [(b, c # cs)] else [(b, c # cs)])"

primrec lazy :: "(char \<Rightarrow> bool) \<Rightarrow> char option \<Rightarrow> string \<Rightarrow> (char option \<times> string) list" where
  "lazy p b [] = [(b, [])]"
| "lazy p b (c # cs) = (if p c then (b, c # cs) # lazy p (Some c) cs else [(b, c # cs)])"

definition move :: "cursor \<Rightarrow> char option \<times> string \<Rightarrow> cursor" where
  "move p x = p\<lparr>behind := fst x, ahead := snd x\<rparr>"

definition word_before :: "cursor \<Rightarrow> bool" where
  "word_before p = (case behind p of None \<Rightarrow> False | Some c \<Rightarrow> is_word c)"

definition word_ahead :: "cursor \<Rightarrow> bool" where
  "word_ahead p = (case ahead p of [] \<Rightarrow> False | c # cs \<Rightarrow> is_word c)"

definition capture :: "nat \<Rightarrow> cursor \<Rightarrow> cursor \<Rightarrow> cursor" where
  "capture n p q =
     q\<lparr>groups := (n, take (length (ahead p) - length (ahead q)) (ahead p)) # groups q\<rparr>"

primrec ms :: "regex \<Rightarrow> cursor \<Rightarrow> cursor list" where
  "ms (Chr f) p = (case ahead p of [] \<Rightarrow> []
                   | c # cs \<Rightarrow> if f c then [move p (Some c, cs)] else [])"
| "ms (Many f) p = map (move p) (greedy f (behind p) (ahead p))"
| "ms (Few f) p = map (move p) (lazy f (behind p) (ahead p))"
| "ms (Cat r1 r2) p = concat (map (ms r2) (ms r1 p))"
| "ms (Or r1 r2) p = ms r1 p @ ms r2 p"
| "ms (Group n r) p = map (capture n p) (ms r p)"
| "ms Bol p = (if behind p = None then [p] else [])"
| "ms Eol p = (if ahead p = [] \<or> ahead p = [CHR 0x0A] then [p] else [])"
| "ms Wordb p = (if word_before p \<noteq> word_ahead p then [p] else [])"
| "ms Empty p = [p]"

definition Some_of :: "(char \<Rightarrow> bool) \<Rightarrow> regex" where
  \<comment> \<open>\<open>c+\<close>\<close>
  "Some_of f = Cat (Chr f) (Many f)"

definition Maybe :: "(char \<Rightarrow> bool) \<Rightarrow> regex" where
  \<comment> \<open>\<open>c?\<close>\<close>
  "Maybe f = Or (Chr f) Empty"

primrec seq :: "regex list \<Rightarrow> regex" where
  "seq [] = Empty"
| "seq (r # rs) = Cat r (seq rs)"

primrec alts :: "regex list \<Rightarrow> regex" where
  \<comment> \<open>\<open>r1|r2|...\<close>; the empty alternation matches nothing\<close>
  "alts [] = Chr (\<lambda>c. False)"
| "alts (r # rs) = (if rs = [] then r else Or r (alts rs))"

definition lit :: "string \<Rightarrow> regex" where
  "lit s = seq (map (\<lambda>x. Chr (is_char x)) s)"

definition lit_nocase :: "string \<Rightarrow> regex" where
  "lit_nocase s = seq (map (\<lambda>x. Chr (is_char_nocase x)) s)"

definition first_match :: "regex \<Rightarrow> char option \<Rightarrow> string \<Rightarrow> cursor option" where
  "first_match r b s =
     (case ms r \<lparr>behind = b, ahead = s, groups = []\<rparr> of [] \<Rightarrow> None | m # x \<Rightarrow> Some m)"

definition re_match :: "regex \<Rightarrow> string \<Rightarrow> cursor option" where
  \<comment> \<open>\<open>pattern.match(s)\<close>: a match beginning at the start of \<open>s\<close>\<close>
  "re_match r s = first_match r None s"

primrec search_from :: "regex \<Rightarrow> char option \<Rightarrow> string \<Rightarrow> cursor option" where
  "search_from r b [] = first_match r b []"
| "search_from r b (c # cs) =
     (case first_match r b (c # cs) of Some m \<Rightarrow> Some m | None \<Rightarrow> search_from r (Some c) cs)"

definition re_search :: "regex \<Rightarrow> string \<Rightarrow> cursor option" where
  \<comment> \<open>\<open>pattern.search(s)\<close>: the leftmost position at which a match begins\<close>
  "re_search r s = search_from r None s"

definition group :: "cursor \<Rightarrow> nat \<Rightarrow> string" where
  \<comment> \<open>\<open>match.group(n)\<close>; every group of the patterns below lies on each path through its
      pattern, so a match has set it\<close>
  "group m n = (case map_of (groups m) n of Some g \<Rightarrow> g | None \<Rightarrow> [])"

section \<open>The patterns of \<open>parse_map_file\<close>\<close>

definition bss_header_pattern :: regex where
  \<comment> \<open>\<open>^\s*[0-9a-fA-F]+\s+[0-9a-fA-F]+\s+([0-9a-fA-F]+)\s+\S+\s+\.bss\s*$\<close>\<close>
  "bss_header_pattern =
     seq [Bol, Many is_space, Some_of is_hex, Some_of is_space, Some_of is_hex,
          Some_of is_space, Group 1 (Some_of is_hex), Some_of is_space, Some_of not_space,
          Some_of is_space, lit ''.bss'', Many is_space, Eol]"

definition line_parser_pattern :: regex where
  \<comment> \<open>\<open>^\s*([0-9a-fA-F]+)\s+([0-9a-fA-F]+)\s+([0-9a-fA-F]+)\s+([0-9a-fA-F]+)\s*(.*)$\<close>\<close>
  "line_parser_pattern =
     seq [Bol, Many is_space, Group 1 (Some_of is_hex), Some_of is_space,
          Group 2 (Some_of is_hex), Some_of is_space, Group 3 (Some_of is_hex),
          Some_of is_space, Group 4 (Some_of is_hex), Many is_space,
          Group 5 (Many any_char), Eol]"

definition obj_file_and_section_content_pattern :: regex where
  \<comment> \<open>\<open>^(.*?)\s*:\s*\((.*?)\)$\<close>\<close>
  "obj_file_and_section_content_pattern =
     seq [Bol, Group 1 (Few any_char), Many is_space, lit '':'', Many is_space, lit ''('',
          Group 2 (Few any_char), lit '')'', Eol]"

definition symbol_in_section_pattern :: regex where
  \<comment> \<open>\<open>\.bss\.?([a-zA-Z_][a-zA-Z0-9_$.@*]*)$\<close>\<close>
  "symbol_in_section_pattern =
     seq [lit ''.bss'', Maybe (is_char CHR ''.''),
          Group 1 (Cat (Chr is_sym_start) (Many is_sym_char)), Eol]"

definition plain_symbol_pattern :: regex where
  \<comment> \<open>\<open>^\s*([a-zA-Z_][a-zA-Z0-9_$.@*]*)\s*$\<close>\<close>
  "plain_symbol_pattern =
     seq [Bol, Many is_space, Group 1 (Cat (Chr is_sym_start) (Many is_sym_char)),
          Many is_space, Eol]"

definition other_section_header_pattern :: regex where
  \<comment> \<open>\<open>^\s*[0-9a-fA-F]+\s+[0-9a-fA-F]+\s+([0-9a-fA-F]+)\s+\S+\s+\.(text|data|rodata|stack|heap|common|DEBUG|ARM.exidx)\s*$\<close>
      with \<open>re.IGNORECASE\<close>; the dot inside \<open>ARM.exidx\<close> is unescaped\<close>
  "other_section_header_pattern =
     seq [Bol, Many is_space, Some_of is_hex, Some_of is_space, Some_of is_hex,
          Some_of is_space, Group 1 (Some_of is_hex), Some_of is_space, Some_of not_space,
          Some_of is_space, lit_nocase ''.'',
          Group 2 (alts [lit_nocase ''text'', lit_nocase ''data'', lit_nocase ''rodata'',
                         lit_nocase ''stack'', lit_nocase ''heap'', lit_nocase ''common'',
                         lit_nocase ''DEBUG'',
                         seq [lit_nocase ''ARM'', Chr any_char, lit_nocase ''exidx'']]),
          Many is_space, Eol]"

definition ebss_pattern :: regex where
  \<comment> \<open>\<open>^\s*[0-9a-fA-F]+\s+[0-9a-fA-F]+\s+\S+\s+\S+\s+(_ebss|_end|__bss_end__|COMMON)\b\<close>
      with \<open>re.IGNORECASE\<close>\<close>
  "ebss_pattern =
     seq [Bol, Many is_space, Some_of is_hex, Some_of is_space, Some_of is_hex,
          Some_of is_space, Some_of not_space, Some_of is_space, Some_of not_space,
          Some_of is_space,
          Group 1 (alts [lit_nocase ''_ebss'', lit_nocase ''_end'', lit_nocase ''__bss_end__'',
                         lit_nocase ''COMMON'']),
          Wordb]"

definition dotted_word_pattern :: regex where
  \<comment> \<open>\<open>\.\w+\s+\<close>\<close>
  "dotted_word_pattern = seq [lit ''.'', Some_of is_word, Some_of is_space]"

definition dot_bss_pattern :: regex where
  \<comment> \<open>\<open>\.bss\<close>\<close>
  "dot_bss_pattern = lit ''.bss''"

section \<open>The symbol table and the scan of \<open>parse_map_file\<close>\<close>

text \<open>
  A symbol is the dictionary appended to \<open>bss_symbols\<close>. The key \<open>padding_before\<close> is
  absent until the pass after the scan sets it, hence the option.
\<close>

record symbol =
  name :: string
  size_hex :: string
  size_dec :: int
  vma :: int
  object_file :: string
  padding_before :: "int option"

text \<open>The local variables of \<open>parse_map_file\<close> that live across loop iterations.\<close>

record parse_state =
  total_bss_size :: int
  bss_symbols :: "symbol list"
  in_bss_section :: bool
  current_object_file_context :: string
  added_symbols_set :: "(string \<times> string \<times> int) set"

datatype exn =
    FileNotFoundError
  | ValueError string
  | ZeroDivisionError
  | OtherException string

definition initial_state :: parse_state where
  "initial_state = \<lparr>total_bss_size = 0, bss_symbols = [], in_bss_section = False,
                     current_object_file_context = ''unknown'', added_symbols_set = {}\<rparr>"

definition bss_header_size :: "string \<Rightarrow> string option" where
  \<comment> \<open>\<open>bss_header_pattern.match(stripped_line)\<close> and its group 1\<close>
  "bss_header_size s = map_option (\<lambda>m. group m 1) (re_match bss_header_pattern s)"

definition is_other_section_header :: "string \<Rightarrow> bool" where
  \<comment> \<open>exit check 1: \<open>other_section_header_pattern.match(stripped_line)\<close>\<close>
  "is_other_section_header s = (re_match other_section_header_pattern s \<noteq> None)"

definition is_ebss_marker :: "string \<Rightarrow> bool" where
  \<comment> \<open>exit check 2: \<open>ebss_pattern.search(stripped_line) or "_ebss" in stripped_line\<close>\<close>
  "is_ebss_marker s = (re_search ebss_pattern s \<noteq> None \<or> str_contains ''_ebss'' s)"

definition is_other_section_name :: "string \<Rightarrow> bool" where
  \<comment> \<open>exit check 3: \<open>re.search(r'\.\w+\s+', stripped_line) and not re.search(r'\.bss', stripped_line)\<close>\<close>
  "is_other_section_name s =
     (re_search dotted_word_pattern s \<noteq> None \<and> \<not> (re_search dot_bss_pattern s \<noteq> None))"

definition line_fields :: "string \<Rightarrow> (string \<times> string \<times> string) option" where
  \<comment> \<open>\<open>line_parser_pattern.match(stripped_line)\<close>: groups 1 (VMA), 3 (size) and 5 (remainder)\<close>
  "line_fields s =
     map_option (\<lambda>m. (group m 1, group m 3, group m 5)) (re_match line_parser_pattern s)"

definition object_extensions :: "string list" where
  "object_extensions = [''.o'', ''.obj'', ''.a'', ''.lib'', ''.elf'', ''.s'']"

definition classify_remainder ::
    "string \<Rightarrow> string \<Rightarrow> string option \<times> string option \<times> string" where
  \<comment> \<open>lines 155 to 182: from the sticky context and the remainder, the values of
      \<open>symbol_name\<close>, \<open>object_file_for_current_symbol\<close> and the new sticky context\<close>
  "classify_remainder ctx remainder_str =
     (case re_match obj_file_and_section_content_pattern remainder_str of
        Some m \<Rightarrow>
          (let obj_file_path_from_line = strip (group m 1);
               section_content = strip (group m 2);
               ctx' = (if list_ex (endswith obj_file_path_from_line) object_extensions
                       then obj_file_path_from_line else ctx)
           in (map_option (\<lambda>m2. group m2 1) (re_search symbol_in_section_pattern section_content),
               Some ctx', ctx'))
      | None \<Rightarrow>
          (case re_match plain_symbol_pattern remainder_str of
             Some m \<Rightarrow> (Some (group m 1), Some ctx, ctx)
           | None \<Rightarrow> (None, None, ctx)))"

definition truthy :: "string option \<Rightarrow> bool" where
  \<comment> \<open>the truth value of a variable that is \<open>None\<close> or a string\<close>
  "truthy x = (case x of None \<Rightarrow> False | Some s \<Rightarrow> s \<noteq> [])"

definition symbol_key :: "symbol \<Rightarrow> string \<times> string \<times> int" where
  "symbol_key y = (name y, object_file y, size_dec y)"

definition record_symbol ::
    "parse_state \<Rightarrow> string \<Rightarrow> string \<Rightarrow> string option \<Rightarrow> string option \<Rightarrow> int
       \<Rightarrow> exn + parse_state" where
  \<comment> \<open>lines 184 to 205; \<open>int(line_match.group(1), 16)\<close> is outside the inner \<open>try\<close>\<close>
  "record_symbol st vma_str size_hex_str symbol_name object_file_for_current_symbol
       symbol_size_dec =
     (let is_linker_artifact =
            (symbol_size_dec = 0 \<and> (symbol_name = Some ''_bss'' \<or> symbol_name = Some ''_ebss''))
      in if truthy symbol_name \<and> \<not> is_linker_artifact then
           (case int16 vma_str of
              None \<Rightarrow> Inl (ValueError vma_str)
            | Some vma_addr \<Rightarrow>
                (let final_object_file =
                       (if truthy object_file_for_current_symbol
                        then the object_file_for_current_symbol else ''unknown'');
                     key = (the symbol_name, final_object_file, symbol_size_dec)
                 in if key \<notin> added_symbols_set st then
                      Inr (st\<lparr>bss_symbols := bss_symbols st @
                                 [\<lparr>name = the symbol_name, size_hex = size_hex_str,
                                   size_dec = symbol_size_dec, vma = vma_addr,
                                   object_file = final_object_file, padding_before = None\<rparr>],
                               added_symbols_set := insert key (added_symbols_set st)\<rparr>)
                    else Inr st))
         else Inr st)"

definition bss_line :: "parse_state \<Rightarrow> string \<Rightarrow> exn + parse_state" where
  \<comment> \<open>lines 143 to 205: a line inside the section that met no exit check\<close>
  "bss_line st stripped_line =
     (case line_fields stripped_line of
        None \<Rightarrow> Inr st
      | Some (vma_str, size_hex_str, g5) \<Rightarrow>
          (let remainder_str = strip g5 in
           case int16 size_hex_str of
             None \<Rightarrow> Inr st
           | Some symbol_size_dec \<Rightarrow>
               (case classify_remainder (current_object_file_context st) remainder_str of
                  (symbol_name, object_file_for_current_symbol, ctx') \<Rightarrow>
                    record_symbol (st\<lparr>current_object_file_context := ctx'\<rparr>) vma_str
                      size_hex_str symbol_name object_file_for_current_symbol
                      symbol_size_dec)))"

text \<open>
  The loop \<open>for line in f\<close>. The file gives its lines and then either ends or raises
  (\<open>Some e\<close>) when the next line is asked for; a \<open>break\<close> leaves the loop without asking.
\<close>

fun scan :: "parse_state \<Rightarrow> string list \<Rightarrow> exn option \<Rightarrow> exn + parse_state" where
  "scan st [] None = Inr st"
| "scan st [] (Some e) = Inl e"
| "scan st (line # rest) failure =
     (let stripped_line = strip line in
      if stripped_line = [] then scan st rest failure
      else if \<not> in_bss_section st then
        (case bss_header_size stripped_line of
           None \<Rightarrow> scan st rest failure
         | Some g \<Rightarrow>
             (case int16 g of
                Some n \<Rightarrow> scan (st\<lparr>total_bss_size := n, in_bss_section := True\<rparr>) rest failure
              | None \<Rightarrow> scan st rest failure))
      else if is_other_section_header stripped_line then Inr (st\<lparr>in_bss_section := False\<rparr>)
      else if is_ebss_marker stripped_line then Inr (st\<lparr>in_bss_section := False\<rparr>)
      else if is_other_section_name stripped_line then Inr (st\<lparr>in_bss_section := False\<rparr>)
      else (case bss_line st stripped_line of
              Inl e \<Rightarrow> Inl e
            | Inr st' \<Rightarrow> scan st' rest failure))"

section \<open>The pass after the scan: address order and padding\<close>

fun padding_loop :: "int option \<Rightarrow> int \<Rightarrow> symbol list \<Rightarrow> symbol list \<times> int" where
  \<comment> \<open>lines 211 to 231: \<open>previous_end\<close>, \<open>total_padding\<close> and the symbols still to visit\<close>
  "padding_loop previous_end total_padding [] = ([], total_padding)"
| "padding_loop previous_end total_padding (y # ys) =
     (let current_start = vma y;
          current_size = size_dec y;
          padding = (case previous_end of None \<Rightarrow> 0 | Some e \<Rightarrow> current_start - e);
          y' = (if previous_end \<noteq> None \<and> padding > 0
                then y\<lparr>padding_before := Some padding\<rparr>
                else y\<lparr>padding_before := Some 0\<rparr>);
          total_padding' = (if previous_end \<noteq> None \<and> padding > 0
                            then total_padding + padding else total_padding);
          r = padding_loop (Some (current_start + current_size)) total_padding' ys
      in (y' # fst r, snd r))"

definition post_pass :: "parse_state \<Rightarrow> symbol list \<times> int \<times> int" where
  \<comment> \<open>lines 207 to 231 and the returned tuple; \<open>list.sort\<close> is stable, as \<open>sort_key\<close> is\<close>
  "post_pass st =
     (let r = padding_loop None 0 (sort_key vma (bss_symbols st))
      in (fst r, total_bss_size st, snd r))"

section \<open>\<open>parse_map_file\<close>\<close>

text \<open>
  What \<open>open(map_file_path, 'r')\<close> and reading do is the input: \<open>open\<close> raises, or the
  file gives its lines and then ends or fails.
\<close>

datatype map_file =
    Open_raises exn
  | Opened "string list" "exn option"

datatype outcome =
    Exit string int
  | Return "symbol list \<times> int \<times> int"

fun parse_body :: "map_file \<Rightarrow> exn + symbol list \<times> int \<times> int" where
  \<comment> \<open>the body of the outer \<open>try\<close>\<close>
  "parse_body (Open_raises e) = Inl e"
| "parse_body (Opened lines failure) =
     (case scan initial_state lines failure of
        Inl e \<Rightarrow> Inl e
      | Inr st \<Rightarrow> Inr (post_pass st))"

fun exn_str :: "exn \<Rightarrow> string" where
  "exn_str FileNotFoundError = ''[Errno 2] No such file or directory''"
| "exn_str (ValueError s) = ''invalid literal for int() with base 16: '' @ s"
| "exn_str ZeroDivisionError = ''division by zero''"
| "exn_str (OtherException s) = s"

definition parse_map_file :: "string \<Rightarrow> map_file \<Rightarrow> outcome" where
  \<comment> \<open>the handlers print to \<open>sys.stderr\<close> and call \<open>sys.exit(1)\<close>\<close>
  "parse_map_file map_file_path f =
     (case parse_body f of
        Inl FileNotFoundError \<Rightarrow>
          Exit (''Error: Map file '' @ [CHR 0x27] @ map_file_path @ [CHR 0x27] @ '' not found.'') 1
      | Inl e \<Rightarrow>
          Exit (''An unexpected error occurred while parsing the map file: '' @ exn_str e) 1
      | Inr r \<Rightarrow> Return r)"

section \<open>The report: \<open>print_summary\<close>, \<open>print_symbols\<close> and \<open>main\<close>\<close>

fun nat_digits :: "nat \<Rightarrow> nat \<Rightarrow> string" where
  \<comment> \<open>the digits of a natural number in base 10 or 16, capitals for the digits above 9\<close>
  "nat_digits base n =
     (if base < 2 \<or> n < base
      then [char_of (if n < 10 then 48 + n else 55 + n)]
      else nat_digits base (n div base) @
           [char_of (if n mod base < 10 then 48 + n mod base else 55 + n mod base)])"

definition int_str :: "int \<Rightarrow> string" where
  \<comment> \<open>\<open>f"{i}"\<close>\<close>
  "int_str i = (if i < 0 then ''-'' @ nat_digits 10 (nat (- i)) else nat_digits 10 (nat i))"

definition hex_str :: "int \<Rightarrow> string" where
  \<comment> \<open>\<open>f"{i:X}"\<close>\<close>
  "hex_str i = (if i < 0 then ''-'' @ nat_digits 16 (nat (- i)) else nat_digits 16 (nat i))"

definition ljust :: "nat \<Rightarrow> string \<Rightarrow> string" where
  \<comment> \<open>\<open>f"{s:<{w}}"\<close>\<close>
  "ljust w s = s @ replicate (w - length s) CHR '' ''"

definition rjust :: "nat \<Rightarrow> string \<Rightarrow> string" where
  \<comment> \<open>\<open>f"{s:>{w}}"\<close>\<close>
  "rjust w s = replicate (w - length s) CHR '' '' @ s"

definition size_text :: "bool \<Rightarrow> int \<Rightarrow> string" where
  "size_text with_hex n = int_str n @ (if with_hex then '' (0x'' @ hex_str n @ '')'' else [])"

definition print_summary :: "int \<Rightarrow> bool \<Rightarrow> string list" where
  "print_summary bss_size with_hex =
     [''--- BSS Section Summary ---'',
      ''Total BSS Size: '' @ size_text with_hex bss_size @ '' Bytes'']"

text \<open>
  The percentages are floating point numbers printed with two decimals. The text
  \<open>f"{(a / b) * 100:.2f}"\<close> for a divisor \<open>b\<close> other than 0 is the parameter \<open>pct\<close> of
  the report; the division by 0 raises \<open>ZeroDivisionError\<close>, and the integer 0 that
  stands for the percentage when the total is not positive prints as \<open>0.00\<close>.
\<close>

record col_widths =
  w_name :: nat
  w_size :: nat
  w_pct :: nat
  w_obj :: nat

fun widths_loop ::
    "(int \<Rightarrow> int \<Rightarrow> string) \<Rightarrow> bool \<Rightarrow> int \<Rightarrow> col_widths \<Rightarrow> symbol list \<Rightarrow> exn + col_widths" where
  \<comment> \<open>lines 297 to 303\<close>
  "widths_loop pct with_hex bss_size w [] = Inr w"
| "widths_loop pct with_hex bss_size w (y # ys) =
     (let w1 = w\<lparr>w_name := max (w_name w) (length (name y))\<rparr>;
          w2 = w1\<lparr>w_size := max (w_size w1) (length (size_text with_hex (size_dec y)))\<rparr>;
          w3 = w2\<lparr>w_obj := max (w_obj w2) (length (object_file y))\<rparr>
      in if bss_size = 0 then Inl ZeroDivisionError
         else widths_loop pct with_hex bss_size
                (w3\<lparr>w_pct := max (w_pct w3) (length (pct (size_dec y) bss_size @ ''%''))\<rparr>) ys)"

record counters =
  nb_symbols :: nat
  symbol_size :: int
  computed_size :: int

fun rows_loop ::
    "(int \<Rightarrow> int \<Rightarrow> string) \<Rightarrow> col_widths \<Rightarrow> int \<Rightarrow> bool \<Rightarrow> int \<Rightarrow> bool \<Rightarrow> counters
       \<Rightarrow> symbol list \<Rightarrow> string list \<times> counters" where
  \<comment> \<open>lines 319 to 345: the rows printed and the three counters\<close>
  "rows_loop pct w bss_size with_sdk min_size with_hex k [] = ([], k)"
| "rows_loop pct w bss_size with_sdk min_size with_hex k (y # ys) =
     (let k1 = k\<lparr>symbol_size := symbol_size k + size_dec y\<rparr> in
      if size_dec y < min_size then rows_loop pct w bss_size with_sdk min_size with_hex k1 ys
      else if \<not> with_sdk \<and> str_contains ''/obj/sdk/'' (object_file y)
      then rows_loop pct w bss_size with_sdk min_size with_hex k1 ys
      else
        (let percentage = (if bss_size > 0 then pct (size_dec y) bss_size else ''0.00'');
             row = ljust (w_name w) (name y) @ '' | '' @
                   rjust (w_size w) (size_text with_hex (size_dec y)) @ '' | '' @
                   rjust (w_pct w) (percentage @ ''%'') @ '' | '' @
                   ljust (w_obj w) (object_file y);
             k2 = k1\<lparr>computed_size := computed_size k1 + size_dec y,
                     nb_symbols := nb_symbols k1 + 1\<rparr>;
             r = rows_loop pct w bss_size with_sdk min_size with_hex k2 ys
         in (row # fst r, snd r)))"

definition totals :: "(int \<Rightarrow> int \<Rightarrow> string) \<Rightarrow> nat \<Rightarrow> int \<Rightarrow> int \<Rightarrow> bool \<Rightarrow> int \<Rightarrow> bool
    \<Rightarrow> counters \<Rightarrow> string list" where
  \<comment> \<open>lines 348 to 366\<close>
  "totals pct n bss_size total_padding with_sdk min_size with_hex k =
     (if min_size = 0 \<and> with_sdk
      then [''Total BSS Symbols found: '' @ int_str (int (nb_symbols k)),
            ''Total accumulated size: '' @ int_str (symbol_size k) @ '' Bytes'']
      else [''Total BSS Symbols found: '' @ int_str (int (nb_symbols k)) @ '' / '' @
              int_str (int n),
            ''Total accumulated size: '' @ int_str (computed_size k) @ '' / '' @
              int_str (symbol_size k) @ '' Bytes''])
     @ [''Total explicit padding: '' @ int_str total_padding @ '' Bytes'']
     @ (if bss_size - (symbol_size k + total_padding) > 0
        then [''Additional unaccounted space: '' @
                int_str (bss_size - (symbol_size k + total_padding)) @ '' Bytes'']
        else [])
     @ [''Alignment padding: '' @ size_text with_hex (bss_size - symbol_size k) @ '' Bytes ('' @
          (if bss_size > 0 then pct (bss_size - symbol_size k) bss_size else ''0.00'') @ ''%)'',
        ''Total BSS size: '' @ int_str bss_size @ '' Bytes'']"

definition print_symbols ::
    "(int \<Rightarrow> int \<Rightarrow> string) \<Rightarrow> symbol list \<Rightarrow> int \<Rightarrow> int \<Rightarrow> bool \<Rightarrow> int \<Rightarrow> bool
       \<Rightarrow> string list \<times> exn option" where
  \<comment> \<open>the lines printed, and the exception that ended the call if one did\<close>
  "print_symbols pct bss_syms bss_size total_padding with_sdk min_size with_hex =
     (let sorted_syms = sort_key (\<lambda>y. - size_dec y) bss_syms;
          banner = [''--- BSS Symbols ---'']
      in case widths_loop pct with_hex bss_size
                \<lparr>w_name = length ''Symbol Name'', w_size = length ''Size (B)'',
                 w_pct = length ''% of BSS'', w_obj = length ''Object File''\<rparr> sorted_syms of
           Inl e \<Rightarrow> (banner, Some e)
         | Inr w \<Rightarrow>
             (let header_line = ljust (w_name w) ''Symbol Name'' @ '' | '' @
                                rjust (w_size w) ''Size (B)'' @ '' | '' @
                                rjust (w_pct w) ''% of BSS'' @ '' | '' @
                                ljust (w_obj w) ''Object File'';
                  rule = replicate (length header_line) CHR ''-'';
                  r = rows_loop pct w bss_size with_sdk min_size with_hex
                        \<lparr>nb_symbols = 0, symbol_size = 0, computed_size = 0\<rparr> sorted_syms
              in (banner @ [header_line, rule] @ fst r @ [rule] @
                  totals pct (length sorted_syms) bss_size total_padding with_sdk min_size
                    with_hex (snd r), None)))"

record args =
  input :: string
  min_arg :: int
  hexa :: bool
  sdk :: bool

datatype run_end =
    Finished
  | Exited string int
  | Uncaught exn

definition main :: "(int \<Rightarrow> int \<Rightarrow> string) \<Rightarrow> args \<Rightarrow> map_file \<Rightarrow> string list \<times> run_end" where
  \<comment> \<open>the lines printed to the standard output, and how the process ended\<close>
  "main pct a f =
     (case parse_map_file (input a) f of
        Exit msg c \<Rightarrow> ([], Exited msg c)
      | Return (bss_syms, bss_size, total_padding) \<Rightarrow>
          if bss_syms = [] \<and> bss_size = 0
          then ([''No BSS symbols found and BSS section is empty or not properly parsed.''],
                Finished)
          else if bss_syms = [] \<and> bss_size > 0
          then ([''BSS section has a total size of '' @ int_str bss_size @
                   '' bytes, but no individual symbols were extracted.'',
                 ''This might indicate that the symbol parsing patterns need further refinement for your specific map file format.''],
                Finished)
          else (case print_symbols pct bss_syms bss_size total_padding (sdk a) (min_arg a)
                       (hexa a) of
                  (out, e) \<Rightarrow>
                    (print_summary bss_size (hexa a) @ out,
                     case e of None \<Rightarrow> Finished | Some x \<Rightarrow> Uncaught x)))"

section \<open>Notions used in the proofs\<close>

primrec keeps :: "nat \<Rightarrow> regex \<Rightarrow> bool" where
  \<comment> \<open>no part of the expression captures group \<open>n\<close>\<close>
  "keeps n (Chr f) = True"
| "keeps n (Many f) = True"
| "keeps n (Few f) = True"
| "keeps n (Cat r1 r2) = (keeps n r1 \<and> keeps n r2)"
| "keeps n (Or r1 r2) = (keeps n r1 \<and> keeps n r2)"
| "keeps n (Group k r) = (n \<noteq> k \<and> keeps n r)"
| "keeps n Bol = True"
| "keeps n Eol = True"
| "keeps n Wordb = True"
| "keeps n Empty = True"

definition state_ok :: "parse_state \<Rightarrow> bool" where
  \<comment> \<open>the invariant of the scan: the set holds the keys of the symbols in the list, the
      keys in the list differ, and the sticky context is not the empty string\<close>
  "state_ok st = (added_symbols_set st = set (map symbol_key (bss_symbols st))
                  \<and> distinct (map symbol_key (bss_symbols st))
                  \<and> current_object_file_context st \<noteq> [])"

definition spec_has_dotted_tag :: "string \<Rightarrow> bool" where
  \<comment> \<open>exit check 3 in the words of the specification, not of the code: the line
      contains a token of the shape \<open>\.\w+\<close>\<close>
  "spec_has_dotted_tag s = (re_search (seq [lit ''.'', Some_of is_word]) s \<noteq> None)"

section \<open>Lemmas about the matcher\<close>

lemma greedy_drop:
  "x \<in> set (greedy f b s) \<Longrightarrow> \<exists>k\<le>length s. snd x = drop k s \<and> list_all f (take k s)"
proof (induction s arbitrary: b)
  case Nil
  then show ?case by auto
next
  case (Cons c cs)
  show ?case
  proof (cases "f c \<and> x \<in> set (greedy f (Some c) cs)")
    case True
    with Cons.IH obtain k where "k \<le> length cs" "snd x = drop k cs" "list_all f (take k cs)"
      by blast
    with True have "Suc k \<le> length (c # cs) \<and> snd x = drop (Suc k) (c # cs)
        \<and> list_all f (take (Suc k) (c # cs))" by simp
    then show ?thesis by blast
  next
    case False
    with Cons.prems have "x = (b, c # cs)" by (auto split: if_splits)
    then have "0 \<le> length (c # cs) \<and> snd x = drop 0 (c # cs) \<and> list_all f (take 0 (c # cs))"
      by simp
    then show ?thesis by blast
  qed
qed

lemma ms_keeps:
  "q \<in> set (ms r p) \<Longrightarrow> keeps n r \<Longrightarrow> map_of (groups q) n = map_of (groups p) n"
proof (induction r arbitrary: p q)
  case (Chr f)
  then show ?case by (auto simp add: move_def split: list.splits if_splits)
next
  case (Cat r1 r2)
  then show ?case by fastforce
next
  case (Group k r)
  then show ?case by (auto simp add: capture_def)
qed (auto simp add: move_def split: if_splits)

lemma ms_CatE: "m \<in> set (ms (Cat a r) p) \<Longrightarrow> \<exists>q. q \<in> set (ms a p) \<and> m \<in> set (ms r q)"
  by auto

lemma ms_Some_of:
  assumes "q \<in> set (ms (Some_of f) p)"
  shows "groups q = groups p
    \<and> take (length (ahead p) - length (ahead q)) (ahead p) \<noteq> []
    \<and> list_all f (take (length (ahead p) - length (ahead q)) (ahead p))"
proof -
  from assms have "ahead p \<noteq> []"
    by (auto simp add: Some_of_def split: list.splits)
  then obtain c cs where p: "ahead p = c # cs"
    by (cases "ahead p") auto
  from assms p have fc: "f c"
    by (auto simp add: Some_of_def split: if_splits)
  from assms p fc
  have "q \<in> set (map (move (move p (Some c, cs))) (greedy f (Some c) cs))"
    by (simp add: Some_of_def move_def)
  then obtain x where x: "x \<in> set (greedy f (Some c) cs)"
    and qx: "q = move (move p (Some c, cs)) x"
    by auto
  from qx have q: "ahead q = snd x" "groups q = groups p"
    by (simp_all add: move_def)
  from greedy_drop [OF x] obtain k where k: "k \<le> length cs" "snd x = drop k cs"
    "list_all f (take k cs)" by blast
  from q k have a: "ahead q = drop k cs" by simp
  from k(1) have "length (ahead p) - length (ahead q) = Suc k"
    by (simp add: p a)
  with p fc k q show ?thesis by simp
qed

lemma ms_Group_Some_of:
  assumes "m \<in> set (ms (Cat (Group n (Some_of f)) r) p)" and "keeps n r"
  shows "group m n \<noteq> [] \<and> list_all f (group m n)"
proof -
  from assms(1) obtain q0 where q0: "q0 \<in> set (ms (Some_of f) p)"
    and m: "m \<in> set (ms r (capture n p q0))"
    by auto
  from ms_keeps [OF m assms(2)]
  have "map_of (groups m) n = Some (take (length (ahead p) - length (ahead q0)) (ahead p))"
    by (simp add: capture_def)
  with ms_Some_of [OF q0] show ?thesis by (simp add: group_def)
qed

lemma line_fields_vma_hex:
  assumes "line_fields s = Some (v, z, g)"
  shows "v \<noteq> [] \<and> list_all is_hex v"
proof -
  from assms obtain m where m: "re_match line_parser_pattern s = Some m" and v: "v = group m 1"
    by (auto simp add: line_fields_def)
  from m have "m \<in> set (ms line_parser_pattern \<lparr>behind = None, ahead = s, groups = []\<rparr>)"
    by (auto simp add: re_match_def first_match_def split: list.splits)
  then have "m \<in> set (ms (Cat Bol (Cat (Many is_space) (Cat (Group 1 (Some_of is_hex))
         (seq [Some_of is_space,
          Group 2 (Some_of is_hex), Some_of is_space, Group 3 (Some_of is_hex),
          Some_of is_space, Group 4 (Some_of is_hex), Many is_space,
          Group 5 (Many any_char), Eol])))) \<lparr>behind = None, ahead = s, groups = []\<rparr>)"
    by (simp only: line_parser_pattern_def seq.simps)
  from ms_CatE [OF this] obtain q1 where
    "m \<in> set (ms (Cat (Many is_space) (Cat (Group 1 (Some_of is_hex))
         (seq [Some_of is_space,
          Group 2 (Some_of is_hex), Some_of is_space, Group 3 (Some_of is_hex),
          Some_of is_space, Group 4 (Some_of is_hex), Many is_space,
          Group 5 (Many any_char), Eol]))) q1)" by blast
  from ms_CatE [OF this] obtain q2 where
    "m \<in> set (ms (Cat (Group 1 (Some_of is_hex))
         (seq [Some_of is_space,
          Group 2 (Some_of is_hex), Some_of is_space, Group 3 (Some_of is_hex),
          Some_of is_space, Group 4 (Some_of is_hex), Many is_space,
          Group 5 (Many any_char), Eol])) q2)" by blast
  from ms_Group_Some_of [OF this] v show ?thesis
    by (simp add: Some_of_def)
qed

lemma int16_hex: "v \<noteq> [] \<and> list_all is_hex v \<Longrightarrow> int16 v \<noteq> None"
  by (simp add: int16_def)

section \<open>Lemmas about the scan\<close>

lemma exit_checks_empty:
  "is_other_section_header [] = False" "is_ebss_marker [] = False"
  "is_other_section_name [] = False"
  by code_simp+

lemma scan_exit:
  assumes "in_bss_section st"
    and "is_other_section_header (strip line) \<or> is_ebss_marker (strip line)
         \<or> is_other_section_name (strip line)"
  shows "scan st (line # rest) failure = Inr (st\<lparr>in_bss_section := False\<rparr>)"
proof -
  from assms(2) have "strip line \<noteq> []"
    using exit_checks_empty by auto
  with assms show ?thesis
    by (auto simp add: Let_def)
qed


lemma bss_line_no_error: "bss_line st s \<noteq> Inl e"
proof (cases "line_fields s")
  case None
  then show ?thesis by (simp add: bss_line_def)
next
  case (Some t)
  obtain v z g where t: "t = (v, z, g)" by (cases t)
  from Some t int16_hex [OF line_fields_vma_hex] obtain a where a: "int16 v = Some a"
    by blast
  with Some t show ?thesis
    by (auto simp add: bss_line_def record_symbol_def Let_def split: option.splits prod.splits)
qed

lemma scan_error:
  "scan st ls failure = Inl e \<Longrightarrow> failure = Some e"
proof (induction ls arbitrary: st)
  case Nil
  then show ?case by (cases failure) simp_all
next
  case (Cons line rest)
  show ?case
  proof (cases "strip line = []")
    case True
    with Cons show ?thesis by simp
  next
    case ne: False
    show ?thesis
    proof (cases "in_bss_section st")
      case False
      with ne Cons show ?thesis
        by (auto simp add: Let_def split: option.splits)
    next
      case True
      with ne Cons bss_line_no_error show ?thesis
        by (auto simp add: Let_def split: sum.splits if_splits)
    qed
  qed
qed

lemma scan_read_failure:
  "scan st ls (Some e) = Inl e' \<Longrightarrow> scan st ls (Some e) = Inl e"
  using scan_error [of st ls "Some e" e'] by simp

lemma endswith_nonempty: "list_ex (endswith p) object_extensions \<Longrightarrow> p \<noteq> []"
  by (auto simp add: object_extensions_def endswith_def)

lemma classify_context:
  assumes "classify_remainder ctx r = (nm, obj, c)" and "ctx \<noteq> []"
  shows "c \<noteq> [] \<and> (truthy nm \<longrightarrow> obj = Some c)
       \<and> (c \<noteq> ctx \<longrightarrow>
            (\<exists>m. re_match obj_file_and_section_content_pattern r = Some m
                 \<and> list_ex (endswith (strip (group m 1))) object_extensions
                 \<and> c = strip (group m 1)))"
  using assms
  by (auto simp add: classify_remainder_def Let_def truthy_def
           split: option.splits if_splits dest: endswith_nonempty)

lemma record_symbol_ok:
  assumes "state_ok st" and "record_symbol st v h nm obj sz = Inr st'"
  shows "state_ok st' \<and> current_object_file_context st' = current_object_file_context st
         \<and> (bss_symbols st' = bss_symbols st
           \<or> (\<exists>y. bss_symbols st' = bss_symbols st @ [y]
                 \<and> symbol_key y \<notin> set (map symbol_key (bss_symbols st))
                 \<and> object_file y = (if truthy obj then the obj else ''unknown'')))"
  using assms
  by (auto simp add: record_symbol_def state_ok_def symbol_key_def Let_def
           split: if_splits option.splits)

lemma bss_line_ok:
  assumes "state_ok st" and "bss_line st s = Inr st'"
  shows "state_ok st' \<and> (bss_symbols st' = bss_symbols st
           \<or> (\<exists>y. bss_symbols st' = bss_symbols st @ [y]
                 \<and> symbol_key y \<notin> set (map symbol_key (bss_symbols st))
                 \<and> object_file y = current_object_file_context st'))"
proof (cases "line_fields s")
  case None
  with assms show ?thesis by (simp add: bss_line_def)
next
  case (Some t)
  obtain v z g where t: "t = (v, z, g)" by (cases t)
  show ?thesis
  proof (cases "int16 z")
    case None
    with assms Some t show ?thesis by (simp add: bss_line_def)
  next
    case (Some sz)
    obtain nm obj c where c: "classify_remainder (current_object_file_context st) (strip g)
        = (nm, obj, c)" by (cases "classify_remainder (current_object_file_context st) (strip g)")
    from assms(2) \<open>line_fields s = Some t\<close> t Some c
    have r: "record_symbol (st\<lparr>current_object_file_context := c\<rparr>) v z nm obj sz = Inr st'"
      by (simp add: bss_line_def)
    from assms(1) have "current_object_file_context st \<noteq> []" by (simp add: state_ok_def)
    from classify_context [OF c this] have c1: "c \<noteq> []" and c2: "truthy nm \<longrightarrow> obj = Some c"
      by auto
    from assms(1) c1 have ok: "state_ok (st\<lparr>current_object_file_context := c\<rparr>)"
      by (simp add: state_ok_def)
    from record_symbol_ok [OF ok r] have ok': "state_ok st'"
      and cx: "current_object_file_context st' = c"
      and d: "bss_symbols st' = bss_symbols st
           \<or> (\<exists>y. bss_symbols st' = bss_symbols st @ [y]
                 \<and> symbol_key y \<notin> set (map symbol_key (bss_symbols st))
                 \<and> object_file y = (if truthy obj then the obj else ''unknown''))"
      by simp_all
    from d show ?thesis
    proof
      assume "bss_symbols st' = bss_symbols st"
      with ok' show ?thesis by simp
    next
      assume "\<exists>y. bss_symbols st' = bss_symbols st @ [y]
                 \<and> symbol_key y \<notin> set (map symbol_key (bss_symbols st))
                 \<and> object_file y = (if truthy obj then the obj else ''unknown'')"
      then obtain y where y: "bss_symbols st' = bss_symbols st @ [y]"
        "symbol_key y \<notin> set (map symbol_key (bss_symbols st))"
        "object_file y = (if truthy obj then the obj else ''unknown'')" by blast
      from r y(1) have "truthy nm"
        by (auto simp add: record_symbol_def Let_def split: if_splits option.splits)
      with c2 c1 have "truthy obj \<and> the obj = c" by (simp add: truthy_def)
      with y cx ok' show ?thesis by auto
    qed
  qed
qed

lemma bss_line_context_change:
  assumes "current_object_file_context st \<noteq> []" and "bss_line st s = Inr st'"
    and "current_object_file_context st' \<noteq> current_object_file_context st"
  shows "\<exists>v z g m. line_fields s = Some (v, z, g)
          \<and> re_match obj_file_and_section_content_pattern (strip g) = Some m
          \<and> list_ex (endswith (strip (group m 1))) object_extensions
          \<and> current_object_file_context st' = strip (group m 1)"
proof (cases "line_fields s")
  case None
  with assms show ?thesis by (simp add: bss_line_def)
next
  case (Some t)
  obtain v z g where t: "t = (v, z, g)" by (cases t)
  show ?thesis
  proof (cases "int16 z")
    case None
    with assms Some t show ?thesis by (simp add: bss_line_def)
  next
    case (Some sz)
    obtain nm obj c where c: "classify_remainder (current_object_file_context st) (strip g)
        = (nm, obj, c)" by (cases "classify_remainder (current_object_file_context st) (strip g)")
    from assms(2) \<open>line_fields s = Some t\<close> t Some c
    have r: "record_symbol (st\<lparr>current_object_file_context := c\<rparr>) v z nm obj sz = Inr st'"
      by (simp add: bss_line_def)
    then have "current_object_file_context st' = c"
      by (auto simp add: record_symbol_def Let_def split: if_splits option.splits)
    with classify_context [OF c assms(1)] assms(3) \<open>line_fields s = Some t\<close> t
    show ?thesis by auto
  qed
qed

lemma scan_ok:
  "scan st ls failure = Inr st' \<Longrightarrow> state_ok st
     \<Longrightarrow> state_ok st' \<and> (\<exists>zs. bss_symbols st' = bss_symbols st @ zs)"
proof (induction ls arbitrary: st)
  case Nil
  then show ?case by (cases failure) simp_all
next
  case (Cons line rest)
  show ?case
  proof (cases "strip line = []")
    case True
    with Cons show ?thesis by simp
  next
    case ne: False
    show ?thesis
    proof (cases "in_bss_section st")
      case False
      have t: "state_ok (st\<lparr>total_bss_size := n, in_bss_section := True\<rparr>)" for n
        using Cons.prems(2) by (simp add: state_ok_def)
      from Cons.prems(1) ne False
      have "scan st rest failure = Inr st'
          \<or> (\<exists>n. scan (st\<lparr>total_bss_size := n, in_bss_section := True\<rparr>) rest failure = Inr st')"
        by (auto simp add: Let_def split: option.splits)
      then show ?thesis
      proof
        assume "scan st rest failure = Inr st'"
        from Cons.IH [OF this Cons.prems(2)] show ?thesis .
      next
        assume "\<exists>n. scan (st\<lparr>total_bss_size := n, in_bss_section := True\<rparr>) rest failure
                  = Inr st'"
        then obtain n where
          "scan (st\<lparr>total_bss_size := n, in_bss_section := True\<rparr>) rest failure = Inr st'" ..
        from Cons.IH [OF this t] show ?thesis by simp
      qed
    next
      case True
      show ?thesis
      proof (cases "is_other_section_header (strip line) \<or> is_ebss_marker (strip line)
         \<or> is_other_section_name (strip line)")
        case ex: True
        from scan_exit [OF True ex] Cons.prems show ?thesis
          by (auto simp add: state_ok_def)
      next
        case False
        with Cons.prems ne True obtain st1 where b: "bss_line st (strip line) = Inr st1"
          and s1: "scan st1 rest failure = Inr st'"
          by (auto simp add: Let_def split: sum.splits)
        from bss_line_ok [OF Cons.prems(2) b] have t1: "state_ok st1"
          and p1: "\<exists>zs. bss_symbols st1 = bss_symbols st @ zs" by auto
        from Cons.IH [OF s1 t1] p1 show ?thesis by auto
      qed
    qed
  qed
qed

lemma state_ok_initial: "state_ok initial_state"
  by (simp add: state_ok_def initial_state_def)

section \<open>Lemmas about the pass after the scan\<close>

lemma padding_loop_length: "length (fst (padding_loop prev tp ys)) = length ys"
  by (induction ys arbitrary: prev tp) (simp_all add: Let_def)

lemma padding_loop_nth:
  "i < length ys \<Longrightarrow>
   fst (padding_loop prev tp ys) ! i =
     (ys ! i)\<lparr>padding_before :=
        Some (case (if i = 0 then prev else Some (vma (ys ! (i - 1)) + size_dec (ys ! (i - 1))))
              of None \<Rightarrow> 0 | Some e \<Rightarrow> max 0 (vma (ys ! i) - e))\<rparr>"
proof (induction ys arbitrary: prev tp i)
  case Nil
  then show ?case by simp
next
  case (Cons y ys)
  show ?case
  proof (cases i)
    case 0
    then show ?thesis by (auto simp add: Let_def split: option.splits)
  next
    case (Suc j)
    with Cons.prems have j: "j < length ys" by simp
    from Cons.IH [OF j] Suc show ?thesis
      by (cases j) (simp_all add: Let_def)
  qed
qed

lemma padding_loop_total:
  "snd (padding_loop prev tp ys)
     = tp + sum_list (map (\<lambda>y. the (padding_before y)) (fst (padding_loop prev tp ys)))"
proof (induction ys arbitrary: prev tp)
  case Nil
  then show ?case by simp
next
  case (Cons y ys)
  show ?case
    by (simp add: Let_def Cons.IH [of "Some (vma y + size_dec y)"])
qed

lemma padding_loop_map:
  "map vma (fst (padding_loop prev tp ys)) = map vma ys
   \<and> map size_dec (fst (padding_loop prev tp ys)) = map size_dec ys
   \<and> map symbol_key (fst (padding_loop prev tp ys)) = map symbol_key ys"
  by (induction ys arbitrary: prev tp) (simp_all add: Let_def symbol_key_def)

lemma parse_return:
  assumes "parse_map_file path f = Return (syms, total_size, pad)"
  shows "\<exists>ls failure st. f = Opened ls failure \<and> scan initial_state ls failure = Inr st
     \<and> syms = fst (padding_loop None 0 (sort_key vma (bss_symbols st)))
     \<and> total_size = total_bss_size st
     \<and> pad = snd (padding_loop None 0 (sort_key vma (bss_symbols st)))"
proof (cases f)
  case (Open_raises e)
  with assms show ?thesis
    by (simp add: parse_map_file_def split: exn.splits)
next
  case (Opened ls failure)
  with assms show ?thesis
    by (auto simp add: parse_map_file_def post_pass_def Let_def split: sum.splits exn.splits)
qed

lemma distinct_map_sort_key:
  "distinct (map g xs) \<Longrightarrow> distinct (map g (sort_key k xs))"
  by (simp add: distinct_map)

lemma parse_exit:
  "parse_body f = Inl e \<Longrightarrow>
     parse_map_file path f =
       Exit (if e = FileNotFoundError
             then ''Error: Map file '' @ [CHR 0x27] @ path @ [CHR 0x27] @ '' not found.''
             else ''An unexpected error occurred while parsing the map file: '' @ exn_str e) 1"
  by (cases e) (simp_all add: parse_map_file_def)

section \<open>Claims\<close>

text \<open>
  Claim C1. Inside the BSS section the line \<open>d0000000 d0000000 10 4 DEBUG\<close> should stop
  the scan with no symbol recorded from it. The comment above
  \<open>other_section_header_pattern\<close> gives this very line as one the pattern matches, but
  the pattern asks for a dot before the section name, so neither it nor the other two
  exit checks match: the line is read as a symbol record, a symbol \<open>DEBUG\<close> of 16 bytes
  is recorded, and the following line is scanned as well.
\<close>

theorem debug_header_does_not_stop_scan:
  "parse_map_file ''app.map''
     (Opened [''da7a0000 da7a0000 7480 8 .bss'',
              ''d0000000 d0000000 10 4 DEBUG'',
              ''d0000010 d0000010 8 4 G_y''] None)
   = Return ([\<lparr>name = ''DEBUG'', size_hex = ''10'', size_dec = 16, vma = 3489660928,
                object_file = ''unknown'', padding_before = Some 0\<rparr>,
              \<lparr>name = ''G_y'', size_hex = ''8'', size_dec = 8, vma = 3489660944,
                object_file = ''unknown'', padding_before = Some 0\<rparr>], 29824, 0)"
  by code_simp

text \<open>
  Claim C2. With a total of zero and a non-empty symbol list the report should give 0 for
  every percentage and never divide by zero. The row loop of \<open>print_symbols\<close> guards its
  division (line 330), but the loop that sizes the columns (line 303) divides by the
  total unguarded. A map file whose \<open>.bss\<close> header has size 0 and which holds one symbol
  ends \<open>main\<close> with an uncaught \<open>ZeroDivisionError\<close> before any row is printed, and
  \<open>print_symbols\<close> does so on every non-empty symbol list.
\<close>

theorem zero_total_divides_by_zero:
  "main pct \<lparr>input = ''app.map'', min_arg = 0, hexa = False, sdk = False\<rparr>
     (Opened [''da7a0000 da7a0000 0 8 .bss'', ''da7a0000 da7a0000 4 4 G_x''] None)
   = ([''--- BSS Section Summary ---'', ''Total BSS Size: 0 Bytes'', ''--- BSS Symbols ---''],
      Uncaught ZeroDivisionError)
   \<and> print_symbols pct (y # ys) 0 total_padding with_sdk min_size with_hex
       = ([''--- BSS Symbols ---''], Some ZeroDivisionError)"
proof -
  have p: "parse_map_file ''app.map''
     (Opened [''da7a0000 da7a0000 0 8 .bss'', ''da7a0000 da7a0000 4 4 G_x''] None)
     = Return ([\<lparr>name = ''G_x'', size_hex = ''4'', size_dec = 4, vma = 3665428480,
                object_file = ''unknown'', padding_before = Some 0\<rparr>], 0, 0)"
    by code_simp
  have w: "zs \<noteq> [] \<Longrightarrow> widths_loop pct hx 0 w0 zs = Inl ZeroDivisionError" for w0 hx zs
    by (cases zs) (simp_all add: Let_def)
  have s: "sort_key f (y # ys) \<noteq> []" for f :: "symbol \<Rightarrow> int"
    by (metis length_sort list.distinct(1) length_0_conv)
  have a: "print_symbols pct (y # ys) 0 total_padding with_sdk min_size with_hex
       = ([''--- BSS Symbols ---''], Some ZeroDivisionError)"
    unfolding print_symbols_def Let_def by (simp only: w [OF s] sum.case)
  have a1: "print_symbols pct [z] 0 0 False 0 False
       = ([''--- BSS Symbols ---''], Some ZeroDivisionError)" for z
    unfolding print_symbols_def Let_def by (simp add: w)
  have b: "print_summary 0 False = [''--- BSS Section Summary ---'', ''Total BSS Size: 0 Bytes'']"
    by code_simp
  have m: "main pct \<lparr>input = ''app.map'', min_arg = 0, hexa = False, sdk = False\<rparr>
     (Opened [''da7a0000 da7a0000 0 8 .bss'', ''da7a0000 da7a0000 4 4 G_x''] None)
   = ([''--- BSS Section Summary ---'', ''Total BSS Size: 0 Bytes'', ''--- BSS Symbols ---''],
      Uncaught ZeroDivisionError)"
    by (simp add: main_def p a1 b)
  show ?thesis using m a by simp
qed


text \<open>
  Claim C3. No two symbols returned by \<open>parse_map_file\<close> share the triple (name, object
  file, size). During the scan the symbols already in the list keep their positions: a
  line leaves the list as it is, or appends one symbol whose triple is new, so the first
  occurrence of a triple stays where it was first seen and a later candidate with the same
  triple is dropped. The returned list is the list of the scan in ascending address order,
  symbols of equal address in the order first seen. Scenario C: the line \<open>c0de0010 c0de0010 4 4 G_x\<close> twice gives one symbol.
\<close>

theorem symbol_triples_unique:
  "(parse_map_file path f = Return (syms, total_size, pad) \<longrightarrow>
      distinct (map symbol_key syms)
      \<and> (\<exists>ls0 failure0 st0. f = Opened ls0 failure0
            \<and> scan initial_state ls0 failure0 = Inr st0
            \<and> map symbol_key syms = map symbol_key (sort_key vma (bss_symbols st0))))
   \<and> (scan initial_state pre None = Inr st \<and> scan st ls failure = Inr st' \<longrightarrow>
        distinct (map symbol_key (bss_symbols st'))
        \<and> (\<exists>zs. bss_symbols st' = bss_symbols st @ zs))
   \<and> (scan initial_state pre None = Inr st \<and> bss_line st s = Inr st2 \<longrightarrow>
        bss_symbols st2 = bss_symbols st
        \<or> (\<exists>y. bss_symbols st2 = bss_symbols st @ [y]
              \<and> symbol_key y \<notin> set (map symbol_key (bss_symbols st))))
   \<and> parse_map_file ''app.map''
        (Opened [''da7a0000 da7a0000 7480 8 .bss'', ''c0de0010 c0de0010 4 4 G_x'',
                 ''c0de0010 c0de0010 4 4 G_x''] None)
      = Return ([\<lparr>name = ''G_x'', size_hex = ''4'', size_dec = 4, vma = 3235774480,
                   object_file = ''unknown'', padding_before = Some 0\<rparr>], 29824, 0)"
proof -
  have a: "distinct (map symbol_key syms)
      \<and> (\<exists>ls0 failure0 st0. f = Opened ls0 failure0
            \<and> scan initial_state ls0 failure0 = Inr st0
            \<and> map symbol_key syms = map symbol_key (sort_key vma (bss_symbols st0)))"
    if r: "parse_map_file path f = Return (syms, total_size, pad)"
  proof -
    from parse_return [OF r] obtain ls0 failure0 st0 where
      f: "f = Opened ls0 failure0" and s: "scan initial_state ls0 failure0 = Inr st0"
      and y: "syms = fst (padding_loop None 0 (sort_key vma (bss_symbols st0)))" by blast
    from scan_ok [OF s state_ok_initial] have "distinct (map symbol_key (bss_symbols st0))"
      by (simp add: state_ok_def)
    with y have d: "distinct (map symbol_key syms)"
      by (simp add: padding_loop_map distinct_map_sort_key)
    from y have "map symbol_key syms = map symbol_key (sort_key vma (bss_symbols st0))"
      by (simp add: padding_loop_map)
    with d f s show ?thesis by blast
  qed
  have ok: "state_ok st" if "scan initial_state pre None = Inr st"
    using scan_ok [OF that state_ok_initial] by simp
  have b: "distinct (map symbol_key (bss_symbols st'))
        \<and> (\<exists>zs. bss_symbols st' = bss_symbols st @ zs)"
    if "scan initial_state pre None = Inr st" and "scan st ls failure = Inr st'"
    using scan_ok [OF that(2) ok [OF that(1)]] by (simp add: state_ok_def)
  have c: "bss_symbols st2 = bss_symbols st
        \<or> (\<exists>y. bss_symbols st2 = bss_symbols st @ [y]
              \<and> symbol_key y \<notin> set (map symbol_key (bss_symbols st)))"
    if "scan initial_state pre None = Inr st" and "bss_line st s = Inr st2"
    using bss_line_ok [OF ok [OF that(1)] that(2)] by blast
  have d: "parse_map_file ''app.map''
        (Opened [''da7a0000 da7a0000 7480 8 .bss'', ''c0de0010 c0de0010 4 4 G_x'',
                 ''c0de0010 c0de0010 4 4 G_x''] None)
      = Return ([\<lparr>name = ''G_x'', size_hex = ''4'', size_dec = 4, vma = 3235774480,
                   object_file = ''unknown'', padding_before = Some 0\<rparr>], 29824, 0)"
    by code_simp
  from a b c d show ?thesis by blast
qed

theorem symbol_triples_unique_witness:
  "parse_map_file ''app.map''
     (Opened [''da7a0000 da7a0000 7480 8 .bss'', ''c0de0010 c0de0010 4 4 G_x'',
              ''c0de0010 c0de0010 4 4 G_y'', ''c0de0010 c0de0010 4 4 G_x''] None)
   = Return ([\<lparr>name = ''G_x'', size_hex = ''4'', size_dec = 4, vma = 3235774480,
          object_file = ''unknown'', padding_before = Some 0\<rparr>,
         \<lparr>name = ''G_y'', size_hex = ''4'', size_dec = 4, vma = 3235774480,
          object_file = ''unknown'', padding_before = Some 0\<rparr>], 29824, 0)
   \<and> scan initial_state [''da7a0000 da7a0000 7480 8 .bss''] None
      = Inr \<lparr>total_bss_size = 29824, bss_symbols = [], in_bss_section = True,
            current_object_file_context = ''unknown'', added_symbols_set = {}\<rparr>
   \<and> bss_line \<lparr>total_bss_size = 29824, bss_symbols = [], in_bss_section = True,
            current_object_file_context = ''unknown'', added_symbols_set = {}\<rparr> ''c0de0010 c0de0010 4 4 G_x''
      = Inr \<lparr>total_bss_size = 29824,
            bss_symbols = [\<lparr>name = ''G_x'', size_hex = ''4'', size_dec = 4, vma = 3235774480,
                            object_file = ''unknown'', padding_before = None\<rparr>],
            in_bss_section = True, current_object_file_context = ''unknown'',
            added_symbols_set = {(''G_x'', ''unknown'', 4)}\<rparr>
   \<and> scan \<lparr>total_bss_size = 29824, bss_symbols = [], in_bss_section = True,
            current_object_file_context = ''unknown'', added_symbols_set = {}\<rparr>
        [''c0de0010 c0de0010 4 4 G_x'', ''c0de0010 c0de0010 4 4 G_x''] None
      = Inr \<lparr>total_bss_size = 29824,
            bss_symbols = [\<lparr>name = ''G_x'', size_hex = ''4'', size_dec = 4, vma = 3235774480,
                            object_file = ''unknown'', padding_before = None\<rparr>],
            in_bss_section = True, current_object_file_context = ''unknown'',
            added_symbols_set = {(''G_x'', ''unknown'', 4)}\<rparr>
   \<and> distinct (map symbol_key
        [\<lparr>name = ''G_x'', size_hex = ''4'', size_dec = 4, vma = 3235774480,
          object_file = ''unknown'', padding_before = Some 0\<rparr>,
         \<lparr>name = ''G_y'', size_hex = ''4'', size_dec = 4, vma = 3235774480,
          object_file = ''unknown'', padding_before = Some 0\<rparr>])
   \<and> distinct (map symbol_key [\<lparr>name = ''G_x'', size_hex = ''4'', size_dec = 4, vma = 3235774480,
          object_file = ''unknown'', padding_before = None\<rparr>])
   \<and> (\<exists>zs. [\<lparr>name = ''G_x'', size_hex = ''4'', size_dec = 4, vma = 3235774480,
          object_file = ''unknown'', padding_before = None\<rparr>] = [] @ zs)
   \<and> (\<exists>y. [\<lparr>name = ''G_x'', size_hex = ''4'', size_dec = 4, vma = 3235774480,
          object_file = ''unknown'', padding_before = None\<rparr>] = [] @ [y] \<and> symbol_key y \<notin> set (map symbol_key []))"
  (is "?p \<and> ?s \<and> ?b \<and> ?t \<and> ?d \<and> ?e \<and> ?g \<and> ?h")
proof -
  let ?S = "\<lparr>total_bss_size = 29824, bss_symbols = [], in_bss_section = True,
            current_object_file_context = ''unknown'', added_symbols_set = {}\<rparr>"
  let ?S1 = "\<lparr>total_bss_size = 29824,
            bss_symbols = [\<lparr>name = ''G_x'', size_hex = ''4'', size_dec = 4, vma = 3235774480,
                            object_file = ''unknown'', padding_before = None\<rparr>],
            in_bss_section = True, current_object_file_context = ''unknown'',
            added_symbols_set = {(''G_x'', ''unknown'', 4)}\<rparr>"
  have p: ?p by code_simp
  have s: ?s by code_simp
  have b: ?b by code_simp
  have t: ?t by code_simp
  from symbol_triples_unique p have d: ?d by blast
  note th = symbol_triples_unique
    [of _ _ _ _ _ "[''da7a0000 da7a0000 7480 8 .bss'']" ?S
        "[''c0de0010 c0de0010 4 4 G_x'', ''c0de0010 c0de0010 4 4 G_x'']" None ?S1
        "''c0de0010 c0de0010 4 4 G_x''" ?S1]
  from th s t have "distinct (map symbol_key (bss_symbols ?S1))
      \<and> (\<exists>zs. bss_symbols ?S1 = bss_symbols ?S @ zs)" by blast
  then have e: ?e and g: ?g by simp_all
  from th s b have "bss_symbols ?S1 = bss_symbols ?S
        \<or> (\<exists>y. bss_symbols ?S1 = bss_symbols ?S @ [y]
              \<and> symbol_key y \<notin> set (map symbol_key (bss_symbols ?S)))" by blast
  then have h: ?h by simp
  from p s b t d e g h show ?thesis by blast
qed

text \<open>
  Claim C4. The returned symbols are in ascending address order; the first has
  \<open>padding_before\<close> 0, every later one has the gap between its address and the end
  (address plus size) of the symbol before it, or 0 when there is no gap; and
  \<open>total_padding\<close> is the sum of the \<open>padding_before\<close> values. Scenario D: a symbol of
  size 4 at \<open>0x100\<close> and one at \<open>0x108\<close> (here met in the file in the opposite order)
  give the second a \<open>padding_before\<close> of 4.
\<close>

theorem padding_from_address_order:
  "(parse_map_file path f = Return (syms, total_size, pad) \<longrightarrow>
      sorted (map vma syms)
      \<and> (\<forall>i<length syms. padding_before (syms ! i) =
            Some (if i = 0 then 0
                  else max 0 (vma (syms ! i)
                              - (vma (syms ! (i - 1)) + size_dec (syms ! (i - 1))))))
      \<and> pad = sum_list (map (\<lambda>y. the (padding_before y)) syms))
   \<and> parse_map_file ''app.map''
        (Opened [''da7a0000 da7a0000 7480 8 .bss'', ''108 108 8 4 G_b'', ''100 100 4 4 G_a'']
           None)
      = Return ([\<lparr>name = ''G_a'', size_hex = ''4'', size_dec = 4, vma = 256,
                   object_file = ''unknown'', padding_before = Some 0\<rparr>,
                 \<lparr>name = ''G_b'', size_hex = ''8'', size_dec = 8, vma = 264,
                   object_file = ''unknown'', padding_before = Some 4\<rparr>], 29824, 4)"
proof -
  have a: "sorted (map vma syms)
      \<and> (\<forall>i<length syms. padding_before (syms ! i) =
            Some (if i = 0 then 0
                  else max 0 (vma (syms ! i)
                              - (vma (syms ! (i - 1)) + size_dec (syms ! (i - 1))))))
      \<and> pad = sum_list (map (\<lambda>y. the (padding_before y)) syms)"
    if r: "parse_map_file path f = Return (syms, total_size, pad)"
  proof -
    from parse_return [OF r] obtain ls failure st where
      "f = Opened ls failure" "scan initial_state ls failure = Inr st"
      and y: "syms = fst (padding_loop None 0 (sort_key vma (bss_symbols st)))"
      and p: "pad = snd (padding_loop None 0 (sort_key vma (bss_symbols st)))" by blast
    let ?ys = "sort_key vma (bss_symbols st)"
    have m: "map vma syms = map vma ?ys" "map size_dec syms = map size_dec ?ys"
      by (simp_all add: y padding_loop_map)
    have len: "length syms = length ?ys"
      by (simp add: y padding_loop_length)
    have v: "vma (syms ! i) = vma (?ys ! i)" "size_dec (syms ! i) = size_dec (?ys ! i)"
      if "i < length syms" for i
      using that m len by (metis nth_map)+
    have s: "sorted (map vma syms)" by (simp add: m)
    have b: "padding_before (syms ! i) =
            Some (if i = 0 then 0
                  else max 0 (vma (syms ! i)
                              - (vma (syms ! (i - 1)) + size_dec (syms ! (i - 1)))))"
      if i: "i < length syms" for i
    proof -
      from i len have "i < length ?ys" by simp
      from padding_loop_nth [OF this, of None 0] y
      have "padding_before (syms ! i) = Some (case (if i = 0 then None
              else Some (vma (?ys ! (i - 1)) + size_dec (?ys ! (i - 1))))
                of None \<Rightarrow> 0 | Some e \<Rightarrow> max 0 (vma (?ys ! i) - e))" by simp
      with i v [of i] v [of "i - 1"] show ?thesis by (cases "i = 0") simp_all
    qed
    have c: "pad = sum_list (map (\<lambda>y. the (padding_before y)) syms)"
      using padding_loop_total [of None 0 ?ys] by (simp add: y p)
    from s b c show ?thesis by blast
  qed
  have d: "parse_map_file ''app.map''
        (Opened [''da7a0000 da7a0000 7480 8 .bss'', ''108 108 8 4 G_b'', ''100 100 4 4 G_a'']
           None)
      = Return ([\<lparr>name = ''G_a'', size_hex = ''4'', size_dec = 4, vma = 256,
                   object_file = ''unknown'', padding_before = Some 0\<rparr>,
                 \<lparr>name = ''G_b'', size_hex = ''8'', size_dec = 8, vma = 264,
                   object_file = ''unknown'', padding_before = Some 4\<rparr>], 29824, 4)"
    by code_simp
  from a d show ?thesis by blast
qed

theorem padding_from_address_order_witness:
  "parse_map_file ''app.map''
     (Opened [''da7a0000 da7a0000 7480 8 .bss'', ''110 110 4 4 G_c'', ''100 100 8 4 G_a'',
              ''104 104 4 4 G_b''] None)
   = Return ([\<lparr>name = ''G_a'', size_hex = ''8'', size_dec = 8, vma = 256,
                object_file = ''unknown'', padding_before = Some 0\<rparr>,
              \<lparr>name = ''G_b'', size_hex = ''4'', size_dec = 4, vma = 260,
                object_file = ''unknown'', padding_before = Some 0\<rparr>,
              \<lparr>name = ''G_c'', size_hex = ''4'', size_dec = 4, vma = 272,
                object_file = ''unknown'', padding_before = Some 8\<rparr>], 29824, 8)
   \<and> sorted [256, 260, 272 :: int]
   \<and> (8 :: int) = sum_list [0, 0, 8]
   \<and> Some (8 :: int) = Some (max 0 (272 - (260 + 4)))"
  (is "?p \<and> ?s \<and> ?t \<and> ?u")
proof -
  let ?R = "[\<lparr>name = ''G_a'', size_hex = ''8'', size_dec = 8, vma = 256,
                object_file = ''unknown'', padding_before = Some 0\<rparr>,
              \<lparr>name = ''G_b'', size_hex = ''4'', size_dec = 4, vma = 260,
                object_file = ''unknown'', padding_before = Some 0\<rparr>,
              \<lparr>name = ''G_c'', size_hex = ''4'', size_dec = 4, vma = 272,
                object_file = ''unknown'', padding_before = Some 8\<rparr>]"
  have p: ?p by code_simp
  from padding_from_address_order p
  have q: "sorted (map vma ?R)
      \<and> (\<forall>i<length ?R. padding_before (?R ! i) =
            Some (if i = 0 then 0
                  else max 0 (vma (?R ! i) - (vma (?R ! (i - 1)) + size_dec (?R ! (i - 1))))))
      \<and> (8 :: int) = sum_list (map (\<lambda>y. the (padding_before y)) ?R)"
    by blast
  then have "?s \<and> ?t" by simp
  moreover from q have "padding_before (?R ! 2) =
            Some (if (2 :: nat) = 0 then 0
                  else max 0 (vma (?R ! 2) - (vma (?R ! (2 - 1)) + size_dec (?R ! (2 - 1)))))"
    by simp
  then have ?u by simp
  ultimately show ?thesis using p by blast
qed



text \<open>
  Claim C6. For a line parsed inside the BSS section from a state reached by the scan:
  the sticky object-file context changes only when the remainder has the form
  \<open><path>:(<content>)\<close> and the path ends with one of \<open>.o .obj .a .lib .elf .s\<close>, and then
  it becomes that path; otherwise (a plain symbol line in particular) it stays as it was;
  and a symbol recorded from the line has the context after the line as its object file.
  Scenario B: the two lines give \<open>G_x\<close> of size 4 and \<open>G_y\<close> of size 8, both of
  \<open>build/obj/app/foo.o\<close>.
\<close>

theorem sticky_object_file_context:
  "(scan initial_state pre None = Inr st \<and> bss_line st s = Inr st' \<longrightarrow>
      (current_object_file_context st' \<noteq> current_object_file_context st \<longrightarrow>
         (\<exists>v z g m. line_fields s = Some (v, z, g)
            \<and> re_match obj_file_and_section_content_pattern (strip g) = Some m
            \<and> list_ex (endswith (strip (group m 1))) object_extensions
            \<and> current_object_file_context st' = strip (group m 1)))
      \<and> (bss_symbols st' = bss_symbols st
          \<or> (\<exists>y. bss_symbols st' = bss_symbols st @ [y]
                \<and> object_file y = current_object_file_context st')))
   \<and> parse_map_file ''app.map''
        (Opened [''da7a0000 da7a0000 7480 8 .bss'',
                 ''c0de0010 c0de0010 4 4 build/obj/app/foo.o:(.bss.G_x)'',
                 ''c0de0014 c0de0014 8 4 G_y''] None)
      = Return ([\<lparr>name = ''G_x'', size_hex = ''4'', size_dec = 4, vma = 3235774480,
                   object_file = ''build/obj/app/foo.o'', padding_before = Some 0\<rparr>,
                 \<lparr>name = ''G_y'', size_hex = ''8'', size_dec = 8, vma = 3235774484,
                   object_file = ''build/obj/app/foo.o'', padding_before = Some 0\<rparr>],
                29824, 0)"
proof -
  have a: "(current_object_file_context st' \<noteq> current_object_file_context st \<longrightarrow>
         (\<exists>v z g m. line_fields s = Some (v, z, g)
            \<and> re_match obj_file_and_section_content_pattern (strip g) = Some m
            \<and> list_ex (endswith (strip (group m 1))) object_extensions
            \<and> current_object_file_context st' = strip (group m 1)))
      \<and> (bss_symbols st' = bss_symbols st
          \<or> (\<exists>y. bss_symbols st' = bss_symbols st @ [y]
                \<and> object_file y = current_object_file_context st'))"
    if p: "scan initial_state pre None = Inr st" and b: "bss_line st s = Inr st'"
  proof -
    from scan_ok [OF p state_ok_initial] have ok: "state_ok st" by simp
    then have ne: "current_object_file_context st \<noteq> []" by (simp add: state_ok_def)
    from bss_line_ok [OF ok b]
    have "bss_symbols st' = bss_symbols st
          \<or> (\<exists>y. bss_symbols st' = bss_symbols st @ [y]
                \<and> object_file y = current_object_file_context st')" by blast
    with bss_line_context_change [OF ne b] show ?thesis by blast
  qed
  have d: "parse_map_file ''app.map''
        (Opened [''da7a0000 da7a0000 7480 8 .bss'',
                 ''c0de0010 c0de0010 4 4 build/obj/app/foo.o:(.bss.G_x)'',
                 ''c0de0014 c0de0014 8 4 G_y''] None)
      = Return ([\<lparr>name = ''G_x'', size_hex = ''4'', size_dec = 4, vma = 3235774480,
                   object_file = ''build/obj/app/foo.o'', padding_before = Some 0\<rparr>,
                 \<lparr>name = ''G_y'', size_hex = ''8'', size_dec = 8, vma = 3235774484,
                   object_file = ''build/obj/app/foo.o'', padding_before = Some 0\<rparr>],
                29824, 0)"
    by code_simp
  from a d show ?thesis by blast
qed

theorem sticky_object_file_context_witness:
  "scan initial_state [''da7a0000 da7a0000 7480 8 .bss''] None
     = Inr \<lparr>total_bss_size = 29824, bss_symbols = [], in_bss_section = True,
            current_object_file_context = ''unknown'', added_symbols_set = {}\<rparr>
   \<and> bss_line \<lparr>total_bss_size = 29824, bss_symbols = [], in_bss_section = True,
            current_object_file_context = ''unknown'', added_symbols_set = {}\<rparr>
        ''c0de0010 c0de0010 4 4 build/obj/app/foo.o:(.bss.G_x)''
     = Inr \<lparr>total_bss_size = 29824,
            bss_symbols = [\<lparr>name = ''G_x'', size_hex = ''4'', size_dec = 4, vma = 3235774480,
                            object_file = ''build/obj/app/foo.o'', padding_before = None\<rparr>],
            in_bss_section = True, current_object_file_context = ''build/obj/app/foo.o'',
            added_symbols_set = {(''G_x'', ''build/obj/app/foo.o'', 4)}\<rparr>
   \<and> (\<exists>v z g m. line_fields ''c0de0010 c0de0010 4 4 build/obj/app/foo.o:(.bss.G_x)''
                   = Some (v, z, g)
          \<and> re_match obj_file_and_section_content_pattern (strip g) = Some m
          \<and> list_ex (endswith (strip (group m 1))) object_extensions
          \<and> ''build/obj/app/foo.o'' = strip (group m 1))"
  (is "?a \<and> ?b \<and> ?c")
proof -
  let ?S = "\<lparr>total_bss_size = 29824, bss_symbols = [], in_bss_section = True,
            current_object_file_context = ''unknown'', added_symbols_set = {}\<rparr>"
  let ?S' = "\<lparr>total_bss_size = 29824,
            bss_symbols = [\<lparr>name = ''G_x'', size_hex = ''4'', size_dec = 4, vma = 3235774480,
                            object_file = ''build/obj/app/foo.o'', padding_before = None\<rparr>],
            in_bss_section = True, current_object_file_context = ''build/obj/app/foo.o'',
            added_symbols_set = {(''G_x'', ''build/obj/app/foo.o'', 4)}\<rparr>"
  have a: ?a by code_simp
  have b: ?b by code_simp
  have ne: "current_object_file_context ?S' \<noteq> current_object_file_context ?S" by simp
  note th = sticky_object_file_context
    [of "[''da7a0000 da7a0000 7480 8 .bss'']" ?S
        "''c0de0010 c0de0010 4 4 build/obj/app/foo.o:(.bss.G_x)''" ?S',
     THEN conjunct1, rule_format, OF conjI [OF a b], THEN conjunct1, rule_format, OF ne]
  from th have ?c by (simp only: cursor.simps parse_state.simps)
  with a b show ?thesis by blast
qed

text \<open>
  Claim C7. A line met inside the BSS section whose size field decodes to 0 and whose
  symbol name is \<open>_bss\<close> or \<open>_ebss\<close> adds no symbol to the table.
\<close>

theorem linker_artifacts_discarded:
  assumes "in_bss_section st"
    and "line_fields (strip line) = Some (v, z, g)"
    and "int16 z = Some 0"
    and "fst (classify_remainder (current_object_file_context st) (strip g)) = Some ''_bss''
         \<or> fst (classify_remainder (current_object_file_context st) (strip g)) = Some ''_ebss''"
  shows "\<exists>st'. scan st [line] None = Inr st' \<and> bss_symbols st' = bss_symbols st"
proof (cases "strip line = [] \<or> is_other_section_header (strip line)
    \<or> is_ebss_marker (strip line) \<or> is_other_section_name (strip line)")
  case True
  with assms(1) show ?thesis by (auto simp add: Let_def)
next
  case False
  obtain nm obj c where c: "classify_remainder (current_object_file_context st) (strip g)
      = (nm, obj, c)" by (cases "classify_remainder (current_object_file_context st) (strip g)")
  with assms(4) have nm: "nm = Some ''_bss'' \<or> nm = Some ''_ebss''" by simp
  then have "record_symbol (st\<lparr>current_object_file_context := c\<rparr>) v z nm obj 0
      = Inr (st\<lparr>current_object_file_context := c\<rparr>)"
    by (auto simp add: record_symbol_def)
  with assms(2,3) c have "bss_line st (strip line) = Inr (st\<lparr>current_object_file_context := c\<rparr>)"
    by (simp add: bss_line_def)
  with False assms(1) show ?thesis by (simp add: Let_def)
qed

theorem linker_artifacts_discarded_witness:
  "in_bss_section \<lparr>total_bss_size = 29824, bss_symbols = [], in_bss_section = True,
            current_object_file_context = ''unknown'', added_symbols_set = {}\<rparr>
   \<and> line_fields (strip ''da7a0000 da7a0000 0 1 _bss'') = Some (''da7a0000'', ''0'', ''_bss'')
   \<and> line_fields (strip ''da7a7480 da7a7480 0 1 _ebss'') = Some (''da7a7480'', ''0'', ''_ebss'')
   \<and> int16 ''0'' = Some 0
   \<and> fst (classify_remainder ''unknown'' (strip ''_bss'')) = Some ''_bss''
   \<and> fst (classify_remainder ''unknown'' (strip ''_ebss'')) = Some ''_ebss''
   \<and> (\<exists>st'. scan \<lparr>total_bss_size = 29824, bss_symbols = [], in_bss_section = True,
            current_object_file_context = ''unknown'', added_symbols_set = {}\<rparr>
          [''da7a0000 da7a0000 0 1 _bss''] None = Inr st' \<and> bss_symbols st' = [])
   \<and> (\<exists>st'. scan \<lparr>total_bss_size = 29824, bss_symbols = [], in_bss_section = True,
            current_object_file_context = ''unknown'', added_symbols_set = {}\<rparr>
          [''da7a7480 da7a7480 0 1 _ebss''] None = Inr st' \<and> bss_symbols st' = [])"
  (is "?a \<and> ?b \<and> ?b2 \<and> ?c \<and> ?d \<and> ?d2 \<and> ?e \<and> ?e2")
proof -
  have a: ?a by simp
  have b: ?b by code_simp
  have b2: ?b2 by code_simp
  have c: ?c by code_simp
  have d: ?d by code_simp
  have d2: ?d2 by code_simp
  from linker_artifacts_discarded [OF a b c] d have e: ?e by simp
  from linker_artifacts_discarded [OF a b2 c] d2 have e2: ?e2 by simp
  from a b b2 c d d2 e e2 show ?thesis by blast
qed

text \<open>
  Claim C8. Exit check 3 is \<open>re.search(r'\.\w+\s+', line) and not re.search(r'\.bss', line)\<close>:
  inside the BSS section, a line in which a dot and one or more word characters are
  followed by white space, and which holds \<open>.bss\<close> nowhere, ends the scan at once. A dotted
  tag that white space does not follow (the stripped line ends with it, say) does not end
  the scan: after the line \<open>c0de0000 c0de0000 10 4 .noinit\<close> the next line is still
  scanned and its symbol recorded.
\<close>

theorem dotted_word_and_space_stops_scan:
  assumes "in_bss_section st"
    and "re_search dotted_word_pattern (strip line) \<noteq> None"
    and "re_search dot_bss_pattern (strip line) = None"
  shows "scan st (line # rest) failure = Inr (st\<lparr>in_bss_section := False\<rparr>)"
proof -
  from assms(2,3) have "is_other_section_name (strip line)"
    by (simp add: is_other_section_name_def)
  with scan_exit [OF assms(1)] show ?thesis by blast
qed

theorem dotted_word_and_space_stops_scan_witness:
  "in_bss_section \<lparr>total_bss_size = 29824, bss_symbols = [], in_bss_section = True,
            current_object_file_context = ''unknown'', added_symbols_set = {}\<rparr>
   \<and> re_search dotted_word_pattern (strip ''.data   0x20000000   0x10'') \<noteq> None
   \<and> re_search dot_bss_pattern (strip ''.data   0x20000000   0x10'') = None
   \<and> scan \<lparr>total_bss_size = 29824, bss_symbols = [], in_bss_section = True,
            current_object_file_context = ''unknown'', added_symbols_set = {}\<rparr>
        [''.data   0x20000000   0x10'', ''c0de0014 c0de0014 8 4 G_y''] None
      = Inr \<lparr>total_bss_size = 29824, bss_symbols = [], in_bss_section = False,
            current_object_file_context = ''unknown'', added_symbols_set = {}\<rparr>"
  (is "?a \<and> ?b \<and> ?c \<and> ?d")
proof -
  have a: ?a by simp
  have b: ?b by code_simp
  have c: ?c by code_simp
  from dotted_word_and_space_stops_scan [OF a b c, of "[''c0de0014 c0de0014 8 4 G_y'']" None]
  have ?d by simp
  with a b c show ?thesis by blast
qed

theorem dotted_tag_without_space_continues:
  "in_bss_section \<lparr>total_bss_size = 29824, bss_symbols = [], in_bss_section = True,
            current_object_file_context = ''unknown'', added_symbols_set = {}\<rparr>
   \<and> spec_has_dotted_tag (strip ''c0de0000 c0de0000 10 4 .noinit'')
   \<and> \<not> str_contains ''.bss'' (strip ''c0de0000 c0de0000 10 4 .noinit'')
   \<and> scan \<lparr>total_bss_size = 29824, bss_symbols = [], in_bss_section = True,
            current_object_file_context = ''unknown'', added_symbols_set = {}\<rparr>
        [''c0de0000 c0de0000 10 4 .noinit'', ''c0de0014 c0de0014 8 4 G_y''] None
      = Inr \<lparr>total_bss_size = 29824,
             bss_symbols = [\<lparr>name = ''G_y'', size_hex = ''8'', size_dec = 8, vma = 3235774484,
                             object_file = ''unknown'', padding_before = None\<rparr>],
             in_bss_section = True, current_object_file_context = ''unknown'',
             added_symbols_set = {(''G_y'', ''unknown'', 8)}\<rparr>"
  by code_simp

text \<open>
  Claim C9. \<open>parse_map_file\<close> fails in two ways only: \<open>open\<close> raises, or reading the file
  fails while the scan still asks for lines. Both write a diagnostic to the error stream
  and end the process with status 1. Whatever the lines of a file that can be read to its
  end contain, the function returns.
\<close>

theorem only_io_failures_are_fatal:
  "(\<exists>syms total_size pad. parse_map_file path (Opened ls None) = Return (syms, total_size, pad))
   \<and> (parse_map_file path f = Exit msg code \<longrightarrow>
        code = 1 \<and> msg \<noteq> []
        \<and> ((\<exists>e. f = Open_raises e)
           \<or> (\<exists>ls' e. f = Opened ls' (Some e) \<and> scan initial_state ls' (Some e) = Inl e)))
   \<and> (\<exists>m. m \<noteq> [] \<and> parse_map_file path (Open_raises e) = Exit m 1)
   \<and> (scan initial_state ls (Some e) = Inl e \<longrightarrow>
        (\<exists>m. m \<noteq> [] \<and> parse_map_file path (Opened ls (Some e)) = Exit m 1))"
proof -
  have a: "\<exists>syms total_size pad.
      parse_map_file path (Opened ls None) = Return (syms, total_size, pad)"
  proof (cases "scan initial_state ls None")
    case (Inl e0)
    from scan_error [OF this] show ?thesis by simp
  next
    case (Inr st)
    then have "parse_map_file path (Opened ls None) = Return (post_pass st)"
      by (simp add: parse_map_file_def)
    then show ?thesis by (cases "post_pass st") auto
  qed
  have ex: "\<exists>m. m \<noteq> [] \<and> parse_map_file path g = Exit m 1" if "parse_body g = Inl x" for g x
    using parse_exit [OF that, of path] by auto
  have b: "code = 1 \<and> msg \<noteq> []
        \<and> ((\<exists>e. f = Open_raises e)
           \<or> (\<exists>ls' e. f = Opened ls' (Some e) \<and> scan initial_state ls' (Some e) = Inl e))"
    if x: "parse_map_file path f = Exit msg code"
  proof -
    from x obtain e0 where e0: "parse_body f = Inl e0"
      by (cases "parse_body f") (auto simp add: parse_map_file_def)
    from ex [OF e0] x have c: "code = 1 \<and> msg \<noteq> []" by auto
    show ?thesis
    proof (cases f)
      case (Open_raises e1)
      with c show ?thesis by simp
    next
      case (Opened ls' failure)
      with e0 have s: "scan initial_state ls' failure = Inl e0"
        by (auto split: sum.splits)
      from scan_error [OF s] s Opened c show ?thesis by auto
    qed
  qed
  have c: "\<exists>m. m \<noteq> [] \<and> parse_map_file path (Open_raises e) = Exit m 1"
    by (rule ex [of _ e]) simp
  have d: "\<exists>m. m \<noteq> [] \<and> parse_map_file path (Opened ls (Some e)) = Exit m 1"
    if "scan initial_state ls (Some e) = Inl e"
    by (rule ex [of _ e]) (simp add: that)
  from a b c d show ?thesis by blast
qed

theorem only_io_failures_are_fatal_witness:
  "parse_map_file ''app.map'' (Open_raises FileNotFoundError)
     = Exit (''Error: Map file '' @ [CHR 0x27] @ ''app.map'' @ [CHR 0x27] @ '' not found.'') 1
   \<and> scan initial_state [''da7a0000 da7a0000 7480 8 .bss''] (Some (OtherException ''read error''))
       = Inl (OtherException ''read error'')
   \<and> (\<exists>m. m \<noteq> [] \<and> parse_map_file ''app.map''
          (Opened [''da7a0000 da7a0000 7480 8 .bss''] (Some (OtherException ''read error'')))
        = Exit m 1)
   \<and> ((1 :: int) = 1
       \<and> ((\<exists>e. Open_raises FileNotFoundError = Open_raises e)
          \<or> (\<exists>ls' e. Open_raises FileNotFoundError = Opened ls' (Some e)
                \<and> scan initial_state ls' (Some e) = Inl e)))"
  (is "?a \<and> ?b \<and> ?c \<and> ?d")
proof -
  have a: ?a by (simp add: parse_map_file_def)
  have b: ?b by code_simp
  note th = only_io_failures_are_fatal [of "''app.map''" "[''da7a0000 da7a0000 7480 8 .bss'']"
      "Open_raises FileNotFoundError" _ 1 "OtherException ''read error''"]
  from th b have c: ?c by blast
  from th a have d: ?d by blast
  from a b c d show ?thesis by blast
qed



end
